theory Spec2Isabelle
  imports Complex_Main
begin

section \<open>The latency estimator of the timing-test notebook\<close>

text \<open>
  The analytical content of \<^verbatim>\<open>timing-test-checkpoint.ipynb\<close> is three cells:
  \<^verbatim>\<open>
  thres = np.quantile(data, .95)

  latencies = [] # sound onset time - time of TTL trigger
  above_thres = (data > thres) # true where data is above threshold
  for trial in range(data.shape[0]):
      idx = np.argwhere(above_thres[trial, :])[0] # first index where crosses threshold
      delta = idx/epochs.info['sfreq'] + epochs.tmin # convert to time relative to trigger
      latencies.append(delta)
  offset = np.mean(latencies)

  jitter = np.std(latencies)
  \<close>
  \<open>data\<close> is the squeezed epoch array, one row per trial. It is modelled as a list of
  rows; \<open>sfreq\<close> stands for \<^verbatim>\<open>epochs.info['sfreq']\<close> and \<open>tmin\<close> for \<^verbatim>\<open>epochs.tmin\<close>.

  Numbers: the notebook computes in float64. Samples, threshold, rate and times are
  modelled as real numbers, the arithmetic as exact arithmetic on them; rounding,
  overflow and nan or infinite samples are not modelled. The one nan the model keeps is
  the value numpy returns for the mean and the standard deviation of no elements.
  Division by \<open>sfreq\<close> is meaningful for \<open>sfreq \<noteq> 0\<close> only (numpy yields inf or nan at
  zero, HOL yields 0), so the statements about the value of a latency assume
  \<open>0 < sfreq\<close>.

  The idealisation is sound for what is decided by comparisons, by the choice of an
  index or by the shape of a formula. It says nothing on whether two float64 results
  are bit-identical: a sum of rounded terms depends on their order and need not be an
  exact multiple of a repeated term. Nor does it say where the threshold lies among
  the samples: the interpolation subtracts two samples, and in float64 that difference
  overflows to inf once they are further apart than about 1.797e308 (the trial
  \<open>[-1e308, 1e308]\<close> gets the threshold -inf). Below, the threshold is therefore only
  evaluated on small concrete matrices; no general statement is made about its value.
\<close>

subsection \<open>Errors and values\<close>

text \<open>The exceptions the cells can raise: \<open>ValueError\<close> from \<^verbatim>\<open>np.quantile\<close>, and
  \<open>IndexError\<close> from indexing an empty array with \<^verbatim>\<open>[0]\<close>.\<close>

datatype py_error = IndexError | ValueError

text \<open>A float64 result of a reduction: a number, or nan.\<close>

datatype np_float = Num real | NaN

subsection \<open>The threshold: \<^verbatim>\<open>np.quantile\<close>\<close>

text \<open>
  \<^verbatim>\<open>np.quantile(a, q)\<close> with its default method (linear interpolation), on the flattened
  array. numpy first checks \<^verbatim>\<open>0 <= q <= 1\<close> and raises
  \<^verbatim>\<open>ValueError("Quantiles must be in the range [0, 1]")\<close> otherwise. Then, with \<open>n\<close> the
  number of elements, the virtual index is \<open>(n - 1) * q\<close>; the two neighbours are taken of
  the sorted array at its floor and the floor plus one (both the last element once the
  virtual index reaches \<open>n - 1\<close>, both the first when it is negative), and the result
  interpolates between them by the fractional part.
\<close>

text \<open>numpy's \<^verbatim>\<open>_lerp\<close>, in exact arithmetic: \<open>diff_b_a\<close> never overflows here, as it does
  in float64 for neighbours of huge magnitude and opposite sign.\<close>

definition lerp :: "real \<Rightarrow> real \<Rightarrow> real \<Rightarrow> real" where
  "lerp a b t =
     (let diff_b_a = b - a
      in if 1 / 2 \<le> t then b - diff_b_a * (1 - t) else a + diff_b_a * t)"

definition get_indexes :: "nat \<Rightarrow> real \<Rightarrow> int \<times> int" where
  "get_indexes n virtual_index =
     (let previous_index = \<lfloor>virtual_index\<rfloor>;
          next_index = previous_index + 1
      in if virtual_index < 0 then (0, 0)
         else if real n - 1 \<le> virtual_index then (- 1, - 1)
         else (previous_index, next_index))"

text \<open>Indexing a non-empty array with an index that may be negative (\<open>- 1\<close> is the last
  element). \<open>get_indexes\<close> only produces indices in range.\<close>

definition item :: "real list \<Rightarrow> int \<Rightarrow> real" where
  "item arr i = (if i < 0 then arr ! nat (int (length arr) + i) else arr ! nat i)"

text \<open>On an array with no element numpy's behaviour depends on its version (nan in old
  releases, an exception from indexing in newer ones); the model takes the exception.
  No statement below is about that case.\<close>

definition np_quantile :: "real list \<Rightarrow> real \<Rightarrow> py_error + real" where
  "np_quantile a q =
     (if \<not> (0 \<le> q \<and> q \<le> 1) then Inl ValueError
      else if a = [] then Inl IndexError
      else
        let arr = sort a;
            n = length arr;
            virtual_index = (real n - 1) * q;
            (previous_index, next_index) = get_indexes n virtual_index;
            gamma = virtual_index - real_of_int previous_index
        in Inr (lerp (item arr previous_index) (item arr next_index) gamma))"

text \<open>\<^verbatim>\<open>thres = np.quantile(data, q)\<close>: the quantile of all samples of the matrix. The
  notebook passes the literal \<^verbatim>\<open>.95\<close> and has no quantile input of its own: \<open>q\<close> is a
  parameter of the model only, and every evaluation below is at \<open>95 / 100\<close>.\<close>

definition compute_threshold :: "real list list \<Rightarrow> real \<Rightarrow> py_error + real" where
  "compute_threshold data q = np_quantile (concat data) q"

definition thres :: "real list list \<Rightarrow> py_error + real" where
  "thres data = compute_threshold data (95 / 100)"

subsection \<open>The per-trial latency\<close>

text \<open>\<^verbatim>\<open>np.argwhere(v)\<close> of a boolean vector: the indices of its true entries, ascending.\<close>

definition np_argwhere :: "bool list \<Rightarrow> nat list" where
  "np_argwhere v = filter (\<lambda>i. v ! i) [0..<length v]"

text \<open>One row of \<^verbatim>\<open>above_thres = (data > thres)\<close>.\<close>

definition above_thres :: "real list \<Rightarrow> real \<Rightarrow> bool list" where
  "above_thres row t = map (\<lambda>x. t < x) row"

text \<open>The loop body. \<^verbatim>\<open>np.argwhere(...)[0]\<close> raises \<open>IndexError\<close> when no entry is
  true; otherwise it is the one-element array holding the first index, and \<open>delta\<close> the
  one-element array holding the latency. The model keeps the element.\<close>

definition first_crossing_latency ::
  "real list \<Rightarrow> real \<Rightarrow> real \<Rightarrow> real \<Rightarrow> py_error + real" where
  "first_crossing_latency row t sfreq tmin =
     (case np_argwhere (above_thres row t) of
        [] \<Rightarrow> Inl IndexError
      | idx # _ \<Rightarrow> Inr (real idx / sfreq + tmin))"

text \<open>The loop over the trials, with the list \<open>latencies\<close> it appends to. An exception in
  a trial ends the cell: nothing after it runs.\<close>

fun latencies_loop ::
  "real list list \<Rightarrow> real \<Rightarrow> real \<Rightarrow> real \<Rightarrow> real list \<Rightarrow> py_error + real list" where
  "latencies_loop [] t sfreq tmin latencies = Inr latencies"
| "latencies_loop (row # rest) t sfreq tmin latencies =
     (case first_crossing_latency row t sfreq tmin of
        Inl e \<Rightarrow> Inl e
      | Inr delta \<Rightarrow> latencies_loop rest t sfreq tmin (latencies @ [delta]))"

subsection \<open>The summary: \<^verbatim>\<open>np.mean\<close> and \<^verbatim>\<open>np.std\<close>\<close>

text \<open>
  \<^verbatim>\<open>np.mean\<close> is the sum over the count. \<^verbatim>\<open>np.std\<close> with its default \<^verbatim>\<open>ddof=0\<close> takes
  the mean \<open>arrmean\<close>, squares the deviations from it, sums them, divides by the count
  and takes the square root. On no elements both divide zero by zero: they warn
  (\<^verbatim>\<open>RuntimeWarning\<close>) and return nan; neither raises.
\<close>

definition np_mean :: "real list \<Rightarrow> np_float" where
  "np_mean a =
     (let rcount = length a
      in if rcount = 0 then NaN else Num (sum_list a / real rcount))"

definition np_std :: "real list \<Rightarrow> np_float" where
  "np_std a =
     (let rcount = length a
      in if rcount = 0 then NaN
         else
           let arrmean = sum_list a / real rcount;
               x = map (\<lambda>v. (v - arrmean) * (v - arrmean)) a
           in Num (sqrt (sum_list x / real rcount)))"

text \<open>\<open>(offset, jitter)\<close> of a list of latencies. The result type has an error side so
  that "it raises" can be stated; the two calls never take it.\<close>

definition summarize_latencies :: "real list \<Rightarrow> py_error + np_float \<times> np_float" where
  "summarize_latencies latencies = Inr (np_mean latencies, np_std latencies)"

subsection \<open>The three cells in sequence\<close>

definition estimate_trigger_latency ::
  "real list list \<Rightarrow> real \<Rightarrow> real \<Rightarrow> real \<Rightarrow> py_error + np_float \<times> np_float" where
  "estimate_trigger_latency data sfreq tmin q =
     (case compute_threshold data q of
        Inl e \<Rightarrow> Inl e
      | Inr t \<Rightarrow>
          (case latencies_loop data t sfreq tmin [] of
             Inl e \<Rightarrow> Inl e
           | Inr latencies \<Rightarrow> summarize_latencies latencies))"

subsection \<open>The spec's wording of the jitter\<close>

text \<open>The population standard deviation as the spec words it: the square root of the
  mean squared deviation from the mean, the divisor being the number of values. The
  sample standard deviation divides by one less.\<close>

definition mean_of :: "real list \<Rightarrow> real" where
  "mean_of xs = (\<Sum>x\<leftarrow>xs. x) / real (length xs)"

definition population_std :: "real list \<Rightarrow> real" where
  "population_std xs = sqrt ((\<Sum>x\<leftarrow>xs. (x - mean_of xs)\<^sup>2) / real (length xs))"

definition sample_std :: "real list \<Rightarrow> real" where
  "sample_std xs = sqrt ((\<Sum>x\<leftarrow>xs. (x - mean_of xs)\<^sup>2) / (real (length xs) - 1))"

section \<open>Properties\<close>

subsection \<open>The threshold of the running example\<close>

text \<open>The threshold of the two-trial matrix used as a running example:
  the sorted samples are 0, 0, 0, 1, the virtual index is 2.85, the result 0.85.\<close>

lemma compute_threshold_example:
  "compute_threshold [[0, 0], [0, 1]] (95 / 100) = Inr (17 / 20)"
  by (simp add: compute_threshold_def np_quantile_def get_indexes_def Let_def lerp_def item_def)

subsection \<open>Auxiliary facts about the per-trial latency\<close>

lemma np_argwhere_Nil_iff: "np_argwhere v = [] \<longleftrightarrow> (\<forall>i<length v. \<not> v ! i)"
  by (auto simp: np_argwhere_def filter_empty_conv)

lemma np_argwhere_Cons:
  assumes "np_argwhere v = idx # rest"
  shows "idx < length v \<and> v ! idx \<and> (\<forall>j<idx. \<not> v ! j)"
proof -
  have s: "sorted (np_argwhere v)"
    unfolding np_argwhere_def by (rule sorted_filter[where f="\<lambda>x. x", simplified]) simp
  have "idx \<in> set (np_argwhere v)" using assms by simp
  then have a: "idx < length v \<and> v ! idx" by (auto simp: np_argwhere_def)
  have "\<not> v ! j" if "j < idx" for j
  proof
    assume "v ! j"
    with that a have "j \<in> set (np_argwhere v)" by (auto simp: np_argwhere_def)
    with assms have "j = idx \<or> j \<in> set rest" by auto
    moreover from s assms have "\<forall>y\<in>set rest. idx \<le> y" by simp
    ultimately show False using that by auto
  qed
  with a show ?thesis by blast
qed

text \<open>A trial raises exactly when none of its samples is above the threshold.\<close>

lemma first_crossing_latency_Inl_iff:
  "first_crossing_latency row t sfreq tmin = Inl e \<longleftrightarrow>
     e = IndexError \<and> (\<forall>x\<in>set row. x \<le> t)"
proof -
  have "np_argwhere (above_thres row t) = [] \<longleftrightarrow> (\<forall>x\<in>set row. x \<le> t)"
    by (auto simp: np_argwhere_Nil_iff above_thres_def all_set_conv_all_nth not_less)
  then show ?thesis
    by (auto simp: first_crossing_latency_def split: list.splits)
qed

lemma first_crossing_latency_Inr:
  assumes "first_crossing_latency row t sfreq tmin = Inr d"
  shows "\<exists>k<length row. t < row ! k \<and> (\<forall>j<k. row ! j \<le> t) \<and> d = real k / sfreq + tmin"
proof -
  from assms obtain idx rest where c: "np_argwhere (above_thres row t) = idx # rest"
    and d: "d = real idx / sfreq + tmin"
    by (auto simp: first_crossing_latency_def split: list.splits)
  from np_argwhere_Cons[OF c]
  have "idx < length row \<and> t < row ! idx \<and> (\<forall>j<idx. row ! j \<le> t)"
    by (auto simp: above_thres_def not_less)
  with d show ?thesis by blast
qed

lemma first_crossing_latency_bounds:
  assumes "0 < sfreq" "first_crossing_latency row t sfreq tmin = Inr d"
  shows "tmin \<le> d \<and> d \<le> tmin + (real (length row) - 1) / sfreq"
proof -
  from first_crossing_latency_Inr[OF assms(2)] obtain k where k: "k < length row"
    "d = real k / sfreq + tmin" by blast
  have "0 \<le> real k / sfreq" using assms(1) by simp
  moreover have "real k \<le> real (length row) - 1" using k(1) by linarith
  then have "real k / sfreq \<le> (real (length row) - 1) / sfreq"
    using assms(1) by (simp add: divide_right_mono)
  ultimately show ?thesis using k(2) by simp
qed

subsection \<open>Auxiliary facts about the loop\<close>

text \<open>The loop raises exactly when some trial does; the accumulator plays no part.\<close>

lemma latencies_loop_Inl_iff:
  "latencies_loop data t sfreq tmin acc = Inl e \<longleftrightarrow>
     e = IndexError \<and> (\<exists>row\<in>set data. \<forall>x\<in>set row. x \<le> t)"
proof (induction data arbitrary: acc)
  case Nil
  show ?case by simp
next
  case (Cons row rest)
  show ?case
  proof (cases "first_crossing_latency row t sfreq tmin")
    case (Inl e')
    then have "e' = IndexError" "\<forall>x\<in>set row. x \<le> t"
      by (simp_all add: first_crossing_latency_Inl_iff)
    with Inl show ?thesis by auto
  next
    case (Inr d)
    then have "\<not> (\<forall>x\<in>set row. x \<le> t)"
      using first_crossing_latency_Inl_iff[of row t sfreq tmin IndexError] by simp
    with Inr Cons.IH[of "acc @ [d]"] show ?thesis by auto
  qed
qed

text \<open>When the loop ends, it has appended one latency per trial, in trial order.\<close>

lemma latencies_loop_Inr:
  "latencies_loop data t sfreq tmin acc = Inr ls \<Longrightarrow>
     \<exists>ds. ls = acc @ ds \<and> length ds = length data \<and>
       (\<forall>i<length data. first_crossing_latency (data ! i) t sfreq tmin = Inr (ds ! i))"
proof (induction data arbitrary: acc)
  case Nil
  then show ?case by simp
next
  case (Cons row rest)
  from Cons.prems obtain d where d: "first_crossing_latency row t sfreq tmin = Inr d"
    and r: "latencies_loop rest t sfreq tmin (acc @ [d]) = Inr ls"
    by (auto split: sum.splits)
  from Cons.IH[OF r] obtain ds where ds: "ls = (acc @ [d]) @ ds" "length ds = length rest"
    "\<forall>i<length rest. first_crossing_latency (rest ! i) t sfreq tmin = Inr (ds ! i)"
    by blast
  have "\<forall>i<length (row # rest).
          first_crossing_latency ((row # rest) ! i) t sfreq tmin = Inr ((d # ds) ! i)"
    using d ds(3) by (auto simp: nth_Cons split: nat.splits)
  with ds(1,2) show ?case by (intro exI[of _ "d # ds"]) simp
qed

text \<open>Two trials of four samples at threshold 1, 1000 Hz, epoch start -0.2 s: the first
  crosses at index 2 (index 1 equals the threshold), the second at index 0.\<close>

lemma latencies_loop_example:
  "latencies_loop [[0, 1, 5, 7], [2, 0, 0, 0]] 1 1000 (- 1 / 5) [] =
     Inr [- 99 / 500, - 1 / 5]"
  by (simp add: first_crossing_latency_def np_argwhere_def above_thres_def upt_rec)

subsection \<open>A trial without a crossing\<close>

text \<open>
  C1, as the spec states it: a trial with no sample strictly above the threshold is
  excluded and counted, and the run completes on the remaining trials.

  The cells have no exclusion and no counter. In the matrix of the trials \<open>[0, 0]\<close> and
  \<open>[0, 1]\<close> the threshold is 0.85, the second trial crosses it, the first does not, and
  \<^verbatim>\<open>np.argwhere(above_thres[0, :])[0]\<close> raises \<open>IndexError\<close>: the run aborts.
\<close>

theorem trial_without_crossing_counterexample:
  "(\<exists>x\<in>set [0, 1 :: real]. 17 / 20 < x) \<and> \<not> (\<exists>x\<in>set [0, 0 :: real]. 17 / 20 < x) \<and>
   compute_threshold [[0, 0], [0, 1]] (95 / 100) = Inr (17 / 20) \<and>
   estimate_trigger_latency [[0, 0], [0, 1]] 1000 (- 1 / 5) (95 / 100) = Inl IndexError"
  using compute_threshold_example
  by (simp add: estimate_trigger_latency_def first_crossing_latency_def np_argwhere_def
      above_thres_def upt_rec)

text \<open>
  C1, amended: once the threshold \<open>t\<close> is computed, the run raises \<open>IndexError\<close> when
  some trial has no sample strictly above \<open>t\<close>, whatever the other trials hold; no trial
  is excluded and nothing is returned. Otherwise the loop yields one latency per trial
  and the run returns the mean and the standard deviation of all of them.
\<close>

theorem estimate_aborts_on_trial_without_crossing:
  assumes "compute_threshold data q = Inr t"
  shows "if \<exists>row\<in>set data. \<forall>x\<in>set row. x \<le> t
         then estimate_trigger_latency data sfreq tmin q = Inl IndexError
         else \<exists>latencies. length latencies = length data \<and>
                latencies_loop data t sfreq tmin [] = Inr latencies \<and>
                estimate_trigger_latency data sfreq tmin q =
                  Inr (np_mean latencies, np_std latencies)"
proof (cases "\<exists>row\<in>set data. \<forall>x\<in>set row. x \<le> t")
  case True
  then have "latencies_loop data t sfreq tmin [] = Inl IndexError"
    by (simp add: latencies_loop_Inl_iff)
  with assms True show ?thesis by (simp add: estimate_trigger_latency_def)
next
  case False
  then have "\<nexists>e. latencies_loop data t sfreq tmin [] = Inl e"
    by (simp add: latencies_loop_Inl_iff)
  then obtain ls where ls: "latencies_loop data t sfreq tmin [] = Inr ls"
    by (cases "latencies_loop data t sfreq tmin []") auto
  from latencies_loop_Inr[OF ls] have "length ls = length data" by auto
  with ls assms False show ?thesis
    by (simp add: estimate_trigger_latency_def summarize_latencies_def)
qed

theorem estimate_aborts_on_trial_without_crossing_witness:
  "compute_threshold [[0, 0], [0, 1]] (95 / 100) = Inr (17 / 20) \<and>
   (\<exists>row\<in>set [[0, 0], [0, 1 :: real]]. \<not> (\<exists>x\<in>set row. 17 / 20 < x)) \<and>
   estimate_trigger_latency [[0, 0], [0, 1]] 1000 (- 1 / 5) (95 / 100) = Inl IndexError"
  using estimate_aborts_on_trial_without_crossing
    [OF compute_threshold_example, of 1000 "- 1 / 5"] compute_threshold_example
  by simp

subsection \<open>The first crossing\<close>

text \<open>
  C2: for a trial with some sample strictly above the threshold and a positive sampling
  rate, the latency is \<open>k / sfreq + tmin\<close> for the lowest index \<open>k\<close> whose sample is
  strictly above the threshold: every sample before \<open>k\<close> is at most the threshold (one
  equal to it does not count), and the value is that of the sample index itself, with
  nothing interpolated.
\<close>

theorem first_crossing_latency_lowest_index:
  assumes "0 < sfreq" and "\<exists>x\<in>set row. t < x"
  shows "\<exists>k<length row. t < row ! k \<and> (\<forall>j<k. row ! j \<le> t) \<and>
           first_crossing_latency row t sfreq tmin = Inr (real k / sfreq + tmin)"
proof (cases "first_crossing_latency row t sfreq tmin")
  case (Inl e)
  then have "\<forall>x\<in>set row. x \<le> t" by (simp add: first_crossing_latency_Inl_iff)
  with assms(2) show ?thesis by force
next
  case (Inr d)
  from first_crossing_latency_Inr[OF Inr] Inr show ?thesis by blast
qed

theorem first_crossing_latency_lowest_index_witness:
  "\<exists>k<length [0, 1, 5, 7 :: real].
      1 < [0, 1, 5, 7 :: real] ! k \<and> (\<forall>j<k. [0, 1, 5, 7 :: real] ! j \<le> 1) \<and>
      first_crossing_latency [0, 1, 5, 7] 1 1000 (- 1 / 5) = Inr (real k / 1000 + - 1 / 5)"
  using first_crossing_latency_lowest_index [of 1000 "[0, 1, 5, 7]" 1 "- 1 / 5"] by simp

subsection \<open>The summary of no latencies\<close>

text \<open>
  C4, as the spec states it: summarising the empty sequence fails.

  \<^verbatim>\<open>np.mean([])\<close> and \<^verbatim>\<open>np.std([])\<close> warn and return nan; no exception is raised.
\<close>

theorem summarize_latencies_empty_counterexample:
  "\<not> (\<exists>e. summarize_latencies [] = Inl e)"
  by (simp add: summarize_latencies_def)

text \<open>
  C4, amended: summarising the empty sequence raises nothing and returns the pair
  (nan, nan).
\<close>

theorem summarize_latencies_empty_nan:
  "summarize_latencies [] = Inr (NaN, NaN)"
  by (simp add: summarize_latencies_def np_mean_def np_std_def)

subsection \<open>The jitter is the population standard deviation\<close>

text \<open>
  C7: for a non-empty sequence of latencies the summary is the mean together with the
  population standard deviation, the square root of the mean squared deviation from the
  mean with the number of values as divisor. On the latencies 0 and 2 that is 1, where
  the divisor one less would give the square root of 2.
\<close>

theorem jitter_is_population_std:
  assumes "latencies \<noteq> []"
  shows "summarize_latencies latencies =
           Inr (Num (mean_of latencies), Num (population_std latencies))"
proof -
  have "(\<Sum>v\<leftarrow>latencies. (v - c) * (v - c)) = (\<Sum>v\<leftarrow>latencies. (v - c)\<^sup>2)" for c :: real
    by (simp add: power2_eq_square)
  with assms show ?thesis
    by (simp add: summarize_latencies_def np_mean_def np_std_def Let_def mean_of_def
        population_std_def)
qed

theorem jitter_is_population_std_witness:
  "summarize_latencies [0, 2] = Inr (Num 1, Num 1) \<and> population_std [0, 2] = 1 \<and>
   sample_std [0, 2] \<noteq> 1"
  using jitter_is_population_std [of "[0, 2]"]
  by (simp add: mean_of_def population_std_def sample_std_def)

subsection \<open>Every latency lies within the epoch\<close>

text \<open>
  C10: with a positive sampling rate, when the loop completes it has produced one latency
  per trial, and the latency of a trial of \<open>n\<close> samples lies between \<open>tmin\<close> and
  \<open>tmin + (n - 1) / sfreq\<close>, the crossing index being one of \<open>0, \<dots>, n - 1\<close>.
\<close>

theorem latencies_within_epoch:
  assumes "0 < sfreq" and "latencies_loop data t sfreq tmin [] = Inr latencies"
  shows "length latencies = length data \<and>
         (\<forall>i<length data. tmin \<le> latencies ! i \<and>
              latencies ! i \<le> tmin + (real (length (data ! i)) - 1) / sfreq)"
proof -
  from latencies_loop_Inr[OF assms(2)] have l: "length latencies = length data"
    and f: "\<forall>i<length data. first_crossing_latency (data ! i) t sfreq tmin = Inr (latencies ! i)"
    by auto
  from f first_crossing_latency_bounds[OF assms(1)] l show ?thesis by blast
qed

theorem latencies_within_epoch_witness:
  "latencies_loop [[0, 1, 5, 7], [2, 0, 0, 0]] 1 1000 (- 1 / 5) [] = Inr [- 99 / 500, - 1 / 5] \<and>
   length [- 99 / 500, - 1 / 5 :: real] = length [[0, 1, 5, 7], [2, 0, 0, 0 :: real]] \<and>
   (- 1 / 5 \<le> [- 99 / 500, - 1 / 5 :: real] ! 0 \<and>
    [- 99 / 500, - 1 / 5 :: real] ! 0
      \<le> - 1 / 5 + (real (length ([[0, 1, 5, 7], [2, 0, 0, 0 :: real]] ! 0)) - 1) / 1000) \<and>
   (- 1 / 5 \<le> [- 99 / 500, - 1 / 5 :: real] ! 1 \<and>
    [- 99 / 500, - 1 / 5 :: real] ! 1
      \<le> - 1 / 5 + (real (length ([[0, 1, 5, 7], [2, 0, 0, 0 :: real]] ! 1)) - 1) / 1000)"
proof -
  have h: "(0::real) < 1000" by simp
  from latencies_within_epoch [OF h latencies_loop_example] latencies_loop_example
  show ?thesis by simp
qed

end
